theory Spec2Isabelle
  imports Main "HOL-Library.Word"
begin

section \<open>Shared data model\<close>

text \<open>
  Go's \<open>int64\<close> is a 64-bit word: \<open>+\<close> and \<open>-\<close> wrap, \<open>sint\<close> reads the signed
  value, and the comparisons of the source are comparisons of \<open>sint\<close>.
  A Go \<open>error\<close> is a value carrying its message.
\<close>

type_synonym int64 = "64 word"

datatype error = Error string

text \<open>
  \<open>models.User\<close>. The struct declaration is not among the sources; the fields are the
  ones the provider scans into and the resolver assigns. Pointer fields are options.
\<close>

record User =
  Key :: string
  ID :: string
  Email :: string
  EmailVerifiedAt :: "int64 option"
  Password :: "string option"
  SignupMethods :: string
  GivenName :: "string option"
  FamilyName :: "string option"
  MiddleName :: "string option"
  Nickname :: "string option"
  Gender :: "string option"
  Birthdate :: "string option"
  PhoneNumber :: "string option"
  PhoneNumberVerifiedAt :: "int64 option"
  Picture :: "string option"
  Roles :: string
  RevokedTimestamp :: "int64 option"
  CreatedAt :: int64
  UpdatedAt :: int64

text \<open>
  A user with the given \<open>ID\<close> and \<open>Email\<close> and Go's zero value in every other field.
\<close>

definition new_user :: "string \<Rightarrow> string \<Rightarrow> User" where
  "new_user uid mail =
     \<lparr>Key = '''', ID = uid, Email = mail, EmailVerifiedAt = None, Password = None,
      SignupMethods = '''', GivenName = None, FamilyName = None, MiddleName = None,
      Nickname = None, Gender = None, Birthdate = None, PhoneNumber = None,
      PhoneNumberVerifiedAt = None, Picture = None, Roles = '''', RevokedTimestamp = None,
      CreatedAt = 0, UpdatedAt = 0\<rparr>"

text \<open>\<open>models.Session\<close>: the durable audit row of an issued credential.\<close>

record Session =
  SessionID :: string
  UserID :: string
  UserAgent :: string
  IP :: string

text \<open>\<open>model.Pagination\<close> and \<open>model.Users\<close> of the GraphQL layer.\<close>

record Pagination =
  Limit :: int64
  Page :: int64
  Offset :: int64
  Total :: int64

record 'a Users =
  UsersList :: "'a list"
  UsersPagination :: Pagination

section \<open>The Cassandra provider\<close>

text \<open>
  The provider sends CQL text to a session \<open>p.db\<close>. The store behind the session is
  modelled by its two tables, in the order a scan returns the rows, together with the
  faults the driver may report: a statement that fails to execute (and then changes
  nothing) and a row that fails to scan.
\<close>

datatype statement =
  DeleteUserStmt | SelectSessionIDsStmt | DeleteSessionsStmt
  | CountUsersStmt | SelectUsersStmt

record cassandra =
  user_rows :: "User list"
  session_rows :: "Session list"
  exec_fault :: "statement \<Rightarrow> error option"
  user_scan_fault :: "User \<Rightarrow> error option"
  session_scan_fault :: "string \<Rightarrow> error option"

subsection \<open>DeleteUser\<close>

text \<open>
  \<open>DELETE FROM users WHERE id = '<ID>'\<close>, executed with \<open>Exec\<close>.
\<close>

definition exec_delete_user :: "cassandra \<Rightarrow> string \<Rightarrow> error + cassandra" where
  "exec_delete_user p uid =
     (case exec_fault p DeleteUserStmt of
        Some e \<Rightarrow> Inl e
      | None \<Rightarrow> Inr (p\<lparr>user_rows := filter (\<lambda>u. ID u \<noteq> uid) (user_rows p)\<rparr>))"

text \<open>
  \<open>SELECT id FROM sessions WHERE user_id = '<ID>' ALLOW FILTERING\<close>, read through
  \<open>Iter().Scanner()\<close>. The source never asks the scanner for its error, so a query that
  fails is a scanner with no rows.
\<close>

definition select_session_ids :: "cassandra \<Rightarrow> string \<Rightarrow> string list" where
  "select_session_ids p uid =
     (case exec_fault p SelectSessionIDsStmt of
        Some e \<Rightarrow> []
      | None \<Rightarrow> map SessionID (filter (\<lambda>s. UserID s = uid) (session_rows p)))"

text \<open>
  The loop \<open>for scanner.Next()\<close>: each row is scanned into \<open>wlID\<close> and appended to the
  text \<open>sessionIDs\<close> as \<open>'<wlID>',\<close>; a scan error returns at once. The second
  component collects the identifiers the text lists.
\<close>

fun scan_session_ids ::
  "(string \<Rightarrow> error option) \<Rightarrow> string list \<Rightarrow> string \<times> string list
     \<Rightarrow> error + (string \<times> string list)" where
  "scan_session_ids sf [] acc = Inr acc"
| "scan_session_ids sf (wlID # rest) (sessionIDs, ids) =
     (case sf wlID of
        Some e \<Rightarrow> Inl e
      | None \<Rightarrow>
          scan_session_ids sf rest
            (sessionIDs @ [CHR 0x27] @ wlID @ [CHR 0x27] @ '','', ids @ [wlID]))"

text \<open>
  \<open>DELETE FROM sessions WHERE id IN (<sessionIDs>)\<close>, executed with \<open>Exec\<close>, where
  \<open>sessionIDs\<close> is the text of the loop without its last comma: the rows whose
  identifier the text lists are removed.
\<close>

definition exec_delete_sessions :: "cassandra \<Rightarrow> string list \<Rightarrow> error + cassandra" where
  "exec_delete_sessions p ids =
     (case exec_fault p DeleteSessionsStmt of
        Some e \<Rightarrow> Inl e
      | None \<Rightarrow> Inr (p\<lparr>session_rows := filter (\<lambda>s. SessionID s \<notin> set ids) (session_rows p)\<rparr>))"

text \<open>
  \<open>DeleteUser\<close> returns the error (\<open>None\<close> is \<open>nil\<close>) and the store it leaves behind.
\<close>

definition DeleteUser :: "cassandra \<Rightarrow> User \<Rightarrow> error option \<times> cassandra" where
  "DeleteUser p user =
     (case exec_delete_user p (ID user) of
        Inl err \<Rightarrow> (Some err, p)
      | Inr p1 \<Rightarrow>
          (case scan_session_ids (session_scan_fault p1)
                  (select_session_ids p1 (ID user)) ('''', []) of
             Inl err \<Rightarrow> (Some err, p1)
           | Inr (sessionIDs, ids) \<Rightarrow>
               (case exec_delete_sessions p1 ids of
                  Inl err \<Rightarrow> (Some err, p1)
                | Inr p2 \<Rightarrow> (None, p2))))"

subsection \<open>ListUsers\<close>

text \<open>
  \<open>SELECT COUNT(*) FROM users\<close>, scanned into \<open>paginationClone.Total\<close>.
\<close>

definition count_users :: "cassandra \<Rightarrow> error + int64" where
  "count_users p =
     (case exec_fault p CountUsersStmt of
        Some e \<Rightarrow> Inl e
      | None \<Rightarrow> Inr (of_nat (length (user_rows p))))"

text \<open>
  \<open>SELECT ... FROM users LIMIT <n>\<close> through \<open>Iter().Scanner()\<close>: at most \<open>n\<close> rows,
  and no row at all when the query is refused (a limit that is not positive) or fails,
  since the scanner's error is never read.
\<close>

definition select_users_limit :: "cassandra \<Rightarrow> int64 \<Rightarrow> User list" where
  "select_users_limit p n =
     (case exec_fault p SelectUsersStmt of
        Some e \<Rightarrow> []
      | None \<Rightarrow> if sint n \<le> 0 then [] else take (nat (sint n)) (user_rows p))"

text \<open>
  The loop \<open>for scanner.Next()\<close> with its \<open>counter\<close>: a row is scanned and appended
  once the counter has reached the offset; the counter advances on every row.
\<close>

fun ListUsers_loop ::
  "(User \<Rightarrow> error option) \<Rightarrow> (User \<Rightarrow> 'a) \<Rightarrow> int64 \<Rightarrow> User list \<Rightarrow> int64 \<Rightarrow> 'a list
     \<Rightarrow> error + 'a list" where
  "ListUsers_loop sf asAPIUser off [] counter responseUsers = Inr responseUsers"
| "ListUsers_loop sf asAPIUser off (row # rest) counter responseUsers =
     (if sint off \<le> sint counter then
        (case sf row of
           Some err \<Rightarrow> Inl err
         | None \<Rightarrow>
             ListUsers_loop sf asAPIUser off rest (counter + 1)
               (responseUsers @ [asAPIUser row]))
      else ListUsers_loop sf asAPIUser off rest (counter + 1) responseUsers)"

text \<open>
  \<open>ListUsers\<close>. The projection \<open>user.AsAPIUser()\<close> belongs to the absent
  \<open>models.User\<close> declaration and is a parameter.
\<close>

definition ListUsers ::
  "cassandra \<Rightarrow> (User \<Rightarrow> 'a) \<Rightarrow> Pagination \<Rightarrow> error + 'a Users" where
  "ListUsers p asAPIUser pagination =
     (case count_users p of
        Inl err \<Rightarrow> Inl err
      | Inr totalCount \<Rightarrow>
          (let paginationClone = pagination\<lparr>Total := totalCount\<rparr>;
               rows = select_users_limit p (Limit pagination + Offset pagination)
           in case ListUsers_loop (user_scan_fault p) asAPIUser (Offset pagination)
                     rows 0 [] of
                Inl err \<Rightarrow> Inl err
              | Inr responseUsers \<Rightarrow>
                  Inr \<lparr>UsersList = responseUsers, UsersPagination = paginationClone\<rparr>))"

section \<open>Example data\<close>

definition no_fault :: "'a \<Rightarrow> error option" where
  "no_fault x = None"

text \<open>A store with one user and one session of that user; the session delete fails.\<close>

definition store_failing_session_delete :: cassandra where
  "store_failing_session_delete =
     \<lparr>user_rows = [new_user ''u1'' ''a@b.com''],
      session_rows = [\<lparr>SessionID = ''s1'', UserID = ''u1'', UserAgent = '''', IP = ''''\<rparr>],
      exec_fault = (\<lambda>s. if s = DeleteSessionsStmt then Some (Error ''unavailable'') else None),
      user_scan_fault = no_fault,
      session_scan_fault = no_fault\<rparr>"

text \<open>A store of five users, in the order a scan returns them, and no fault.\<close>

definition store_five_users :: cassandra where
  "store_five_users =
     \<lparr>user_rows = [new_user ''u1'' ''a1@b.com'', new_user ''u2'' ''a2@b.com'',
                   new_user ''u3'' ''a3@b.com'', new_user ''u4'' ''a4@b.com'',
                   new_user ''u5'' ''a5@b.com''],
      session_rows = [],
      exec_fault = no_fault,
      user_scan_fault = no_fault,
      session_scan_fault = no_fault\<rparr>"

text \<open>A store of two users and three sessions, two of them of the first user; no fault.\<close>

definition store_with_sessions :: cassandra where
  "store_with_sessions =
     \<lparr>user_rows = [new_user ''u1'' ''a1@b.com'', new_user ''u2'' ''a2@b.com''],
      session_rows =
        [\<lparr>SessionID = ''s1'', UserID = ''u1'', UserAgent = '''', IP = ''''\<rparr>,
         \<lparr>SessionID = ''s2'', UserID = ''u2'', UserAgent = '''', IP = ''''\<rparr>,
         \<lparr>SessionID = ''s3'', UserID = ''u1'', UserAgent = '''', IP = ''''\<rparr>],
      exec_fault = no_fault,
      user_scan_fault = no_fault,
      session_scan_fault = no_fault\<rparr>"

section \<open>Go library functions the sources call\<close>

text \<open>
  Strings are byte strings. \<open>strconv\<close>'s decimal rendering of an integer, which
  \<open>json.Marshal\<close> uses for an \<open>int64\<close> field.
\<close>

definition digit_char :: "nat \<Rightarrow> char" where
  "digit_char d = ''0123456789'' ! d"






text \<open>\<open>strings.TrimSuffix(s, suffix)\<close> and \<open>strings.Trim(s, " ")\<close>.\<close>

definition TrimSuffix :: "string \<Rightarrow> string \<Rightarrow> string" where
  "TrimSuffix s suffix =
     (if length suffix \<le> length s \<and> drop (length s - length suffix) s = suffix
      then take (length s - length suffix) s else s)"

definition Trim_space :: "string \<Rightarrow> string" where
  "Trim_space s = rev (dropWhile (\<lambda>c. c = CHR '' '') (rev (dropWhile (\<lambda>c. c = CHR '' '') s)))"

section \<open>Query texts of the Cassandra provider\<close>

text \<open>
  \<open>models.Prefix\<close> and \<open>models.Collections\<close> (model.go). \<open>KeySpace\<close> is a variable of
  the provider's package, set elsewhere, and a parameter here.
\<close>

definition Prefix :: string where
  "Prefix = ''authorizer_''"

definition Collections_User :: string where
  "Collections_User = Prefix @ ''users''"

definition Collections_Session :: string where
  "Collections_Session = Prefix @ ''sessions''"

definition Collections_VerificationRequest :: string where
  "Collections_VerificationRequest = Prefix @ ''verification_requests''"


datatype go_value = VNil | VString string | VNumber string







text \<open>\<open>reflect.TypeOf(value).Name()\<close> of a value that is not \<open>nil\<close>.\<close>

fun TypeOf_Name :: "go_value \<Rightarrow> string" where
  "TypeOf_Name (VString s) = ''string''"
| "TypeOf_Name (VNumber lit) = ''Number''"
| "TypeOf_Name VNil = ''''"

text \<open>\<open>fmt.Sprintf("%v", value)\<close>.\<close>

fun Sprintf_v :: "go_value \<Rightarrow> string" where
  "Sprintf_v (VString s) = s"
| "Sprintf_v (VNumber lit) = lit"
| "Sprintf_v VNil = ''<nil>''"

text \<open>
  The text \<open>AddUser\<close> appends to \<open>values\<close> for one value that is not \<open>nil\<close>:
  \<open>'%s',\<close> for a string and \<open>%v,\<close> for anything else.
\<close>

definition AddUser_value :: "go_value \<Rightarrow> string" where
  "AddUser_value v =
     (if TypeOf_Name v = ''string''
      then [CHR 0x27] @ (case v of VString s \<Rightarrow> s | _ \<Rightarrow> '''') @ [CHR 0x27] @ '',''
      else Sprintf_v v @ '','')"

text \<open>
  The loop of \<open>AddUser\<close> over \<open>userMap\<close>, on the entries in the order the \<open>range\<close>
  visits them (Go leaves the order open), from the texts \<open>fields\<close> and \<open>values\<close>
  built so far.
\<close>

fun AddUser_loop :: "(string \<times> go_value) list \<Rightarrow> string \<times> string \<Rightarrow> string \<times> string" where
  "AddUser_loop [] (fieldsT, valuesT) = (fieldsT, valuesT)"
| "AddUser_loop ((k, v) # rest) (fieldsT, valuesT) =
     (if v \<noteq> VNil then
        AddUser_loop rest
          (if k = ''_id'' then fieldsT @ ''id,'' else fieldsT @ k @ '','',
           valuesT @ AddUser_value v)
      else AddUser_loop rest (fieldsT, valuesT))"

definition AddUser_query :: "string \<Rightarrow> (string \<times> go_value) list \<Rightarrow> string" where
  "AddUser_query KeySpace entries =
     (case AddUser_loop entries (''('', ''('') of
        (fieldsT, valuesT) \<Rightarrow>
          ''INSERT INTO '' @ (KeySpace @ ''.'' @ Collections_User) @ '' ''
            @ (butlast fieldsT @ '')'') @ '' VALUES '' @ (butlast valuesT @ '')'')
            @ '' IF NOT EXISTS'')"

text \<open>
  The text \<open>UpdateUser\<close> appends to \<open>updateFields\<close> for one entry, and its loop: the
  keys \<open>_id\<close> and \<open>_key\<close> are skipped.
\<close>

definition UpdateUser_assignment :: "string \<Rightarrow> go_value \<Rightarrow> string" where
  "UpdateUser_assignment k v =
     (if v = VNil then k @ '' = null,''
      else if TypeOf_Name v = ''string''
      then k @ '' = '' @ [CHR 0x27] @ (case v of VString s \<Rightarrow> s | _ \<Rightarrow> '''') @ [CHR 0x27] @ '', ''
      else k @ '' = '' @ Sprintf_v v @ '', '')"

fun UpdateUser_loop :: "(string \<times> go_value) list \<Rightarrow> string \<Rightarrow> string" where
  "UpdateUser_loop [] updateFields = updateFields"
| "UpdateUser_loop ((k, v) # rest) updateFields =
     (if k = ''_id'' then UpdateUser_loop rest updateFields
      else if k = ''_key'' then UpdateUser_loop rest updateFields
      else UpdateUser_loop rest (updateFields @ UpdateUser_assignment k v))"

definition UpdateUser_query :: "string \<Rightarrow> (string \<times> go_value) list \<Rightarrow> string \<Rightarrow> string" where
  "UpdateUser_query KeySpace entries uid =
     ''UPDATE '' @ (KeySpace @ ''.'' @ Collections_User) @ '' SET ''
       @ TrimSuffix (Trim_space (UpdateUser_loop entries '''')) '',''
       @ '' WHERE id = '' @ [CHR 0x27] @ uid @ [CHR 0x27]"




section \<open>The signup resolver\<close>

subsection \<open>Strings\<close>

text \<open>
  \<open>strings.ToLower\<close> on the ASCII letters; the bytes of other characters are kept
  (Go also folds letters outside ASCII). \<open>strings.Split(s, ",")\<close> and
  \<open>strings.Join(xs, ",")\<close>, with the separator a single character.
\<close>

definition lower_char :: "char \<Rightarrow> char" where
  "lower_char c =
     (case map_of (zip ''ABCDEFGHIJKLMNOPQRSTUVWXYZ'' ''abcdefghijklmnopqrstuvwxyz'') c of
        Some l \<Rightarrow> l
      | None \<Rightarrow> c)"

definition ToLower :: "string \<Rightarrow> string" where
  "ToLower s = map lower_char s"

fun Split :: "string \<Rightarrow> char \<Rightarrow> string list" where
  "Split [] sep = [[]]"
| "Split (c # cs) sep =
     (if c = sep then [] # Split cs sep
      else (case Split cs sep of
              [] \<Rightarrow> [[c]]
            | w # ws \<Rightarrow> (c # w) # ws))"

fun Join :: "string list \<Rightarrow> char \<Rightarrow> string" where
  "Join [] sep = []"
| "Join [x] sep = x"
| "Join (x # y # ys) sep = x @ [sep] @ Join (y # ys) sep"

subsection \<open>Data of the resolver\<close>

text \<open>
  \<open>model.SignUpInput\<close>, \<open>models.VerificationRequest\<close>, \<open>token.Token\<close> with its signed
  tokens, and \<open>model.AuthResponse\<close>, with the fields the resolver reads and writes.
  A \<open>nil\<close> slice and a \<open>nil\<close> pointer are \<open>None\<close>; \<open>Roles\<close> is only measured by \<open>len\<close>,
  so a list is enough.
\<close>

record SignUpInput =
  in_Email :: string
  in_Password :: string
  in_ConfirmPassword :: string
  in_Roles :: "string list"
  in_Scope :: "string list option"
  in_GivenName :: "string option"
  in_FamilyName :: "string option"
  in_MiddleName :: "string option"
  in_Nickname :: "string option"
  in_Gender :: "string option"
  in_Birthdate :: "string option"
  in_PhoneNumber :: "string option"
  in_Picture :: "string option"
  in_RedirectURI :: "string option"

record VerificationRequest =
  vr_Token :: string
  vr_Identifier :: string
  vr_ExpiresAt :: int64
  vr_Email :: string
  vr_Nonce :: string
  vr_RedirectURI :: string

record JWTToken =
  jwt_Token :: string
  jwt_ExpiresAt :: int64

record AuthToken =
  FingerPrint :: string
  FingerPrintHash :: string
  AccessToken :: JWTToken
  RefreshToken :: "JWTToken option"

text \<open>
  Modelled from the spec: the public user projection \<open>model.User\<close> that
  \<open>user.AsAPIUser()\<close> returns is not among the sources; it carries the identifier, the
  email and the roles as a list, with the password stripped.
\<close>

record APIUser =
  api_ID :: string
  api_Email :: string
  api_Roles :: "string list"

record AuthResponse =
  res_Message :: string
  res_AccessToken :: "string option"
  res_RefreshToken :: "string option"
  res_ExpiresIn :: "int64 option"
  res_User :: "APIUser option"

text \<open>
  What \<open>utils.GinContextFromContext\<close> yields, reduced to what the resolver asks of it:
  \<open>GetHost(gc)\<close>, \<open>GetAppURL(gc)\<close>, \<open>GetUserAgent(gc.Request)\<close> and \<open>GetIP(gc.Request)\<close>.
\<close>

record GinContext =
  gc_Host :: string
  gc_AppURL :: string
  gc_UserAgent :: string
  gc_IP :: string

datatype EnvKey =
  EnvKeyDisableSignUp | EnvKeyDisableBasicAuthentication | EnvKeyRoles
  | EnvKeyDefaultRoles | EnvKeyDisableEmailVerification

text \<open>
  A call the resolver hands to a goroutine and does not wait for.
\<close>

datatype task =
  SendVerificationMail string string string
  | RegisterEvent string string User
  | AddSession Session

text \<open>
  The state the resolver changes: the store behind \<open>db.Provider\<close>, the writes of
  \<open>memorystore.Provider.SetUserSession\<close> and of \<open>sessionstore.SetState\<close>, the session
  cookies set on the response, and the goroutines started, each with its calls.
\<close>

record 'db world =
  db :: 'db
  user_sessions :: "(string \<times> string \<times> string) list"
  session_states :: "(string \<times> string) list"
  cookies :: "string list"
  background :: "task list list"

text \<open>
  The collaborators of the resolver, none of them among the sources: the provider
  behind \<open>db.Provider\<close> (every operation returns its results and the store it leaves),
  the password hash, the nonce, the token issuer, the projection, the strings of
  package \<open>constants\<close>, and the clock, whose \<open>i\<close>-th reading by the resolver is
  \<open>time_Now_Unix i\<close>.
\<close>

record 'db collaborators =
  utils_GinContextFromContext :: "error + GinContext"
  crypto_EncryptPassword :: "string \<Rightarrow> string \<times> error option"
  time_Now_Unix :: "nat \<Rightarrow> int64"
  utils_GenerateNonce :: "error + (string \<times> string)"
  token_CreateVerificationToken ::
    "string \<Rightarrow> string \<Rightarrow> string \<Rightarrow> string \<Rightarrow> string \<Rightarrow> error + string"
  db_GetUserByEmail :: "'db \<Rightarrow> string \<Rightarrow> User \<times> error option"
  db_AddUser :: "'db \<Rightarrow> User \<Rightarrow> (User \<times> error option) \<times> 'db"
  db_AddVerificationRequest :: "'db \<Rightarrow> VerificationRequest \<Rightarrow> error option \<times> 'db"
  AsAPIUser :: "User \<Rightarrow> APIUser"
  VerificationTypeBasicAuthSignup :: string

text \<open>
  What the resolver of the first source file (with \<open>memorystore\<close> and \<open>validators\<close>)
  uses besides: flag reads that may fail, validators, and the token issuer.
\<close>

record 'db memorystore_collaborators = "'db collaborators" +
  memorystore_GetBoolStoreEnvVariable :: "EnvKey \<Rightarrow> error + bool"
  memorystore_GetStringStoreEnvVariable :: "EnvKey \<Rightarrow> error + string"
  validators_IsValidPassword :: "string \<Rightarrow> error option"
  validators_IsValidEmail :: "string \<Rightarrow> bool"
  validators_IsValidRoles :: "string list \<Rightarrow> string list \<Rightarrow> bool"
  token_CreateAuthToken ::
    "GinContext \<Rightarrow> User \<Rightarrow> string list \<Rightarrow> string list \<Rightarrow> string \<Rightarrow> error + AuthToken"
  AuthRecipeMethodBasicAuth :: string
  TokenTypeSessionToken :: string
  TokenTypeAccessToken :: string
  TokenTypeRefreshToken :: string
  UserCreatedWebhookEvent :: string
  UserSignUpWebhookEvent :: string

text \<open>
  What the resolver of the second source file (with \<open>envstore\<close> and \<open>sessionstore\<close>)
  uses besides: flag reads that return the value alone, validators of package
  \<open>utils\<close>, and the token issuer.
\<close>

record 'db envstore_collaborators = "'db collaborators" +
  envstore_GetBoolStoreEnvVariable :: "EnvKey \<Rightarrow> bool"
  envstore_GetSliceStoreEnvVariable :: "EnvKey \<Rightarrow> string list"
  utils_IsValidPassword :: "string \<Rightarrow> bool"
  utils_IsValidEmail :: "string \<Rightarrow> bool"
  utils_IsValidRoles :: "string list \<Rightarrow> string list \<Rightarrow> bool"
  envstore_CreateAuthToken ::
    "GinContext \<Rightarrow> User \<Rightarrow> string list \<Rightarrow> string list \<Rightarrow> error + AuthToken"
  SignupMethodBasicAuth :: string

subsection \<open>SignupResolver, first source file\<close>

text \<open>
  \<open>x, err := GetBoolStoreEnvVariable(key); if err != nil { x = true }\<close>
  (lines 35-39, 45-49 and 161-165).
\<close>

definition flag_or_true :: "error + bool \<Rightarrow> bool" where
  "flag_or_true r = (case r of Inl err \<Rightarrow> True | Inr b \<Rightarrow> b)"

text \<open>Lines 91-117: the roles asked for, or the default roles.\<close>

definition SignupResolver_inputRoles ::
  "'db memorystore_collaborators \<Rightarrow> SignUpInput \<Rightarrow> error + string list" where
  "SignupResolver_inputRoles env params =
     (if length (in_Roles params) > 0 then
        (case memorystore_GetStringStoreEnvVariable env EnvKeyRoles of
           Inl err \<Rightarrow> Inl err
         | Inr rolesString \<Rightarrow>
             (let roles = Split rolesString CHR '','' in
              if \<not> validators_IsValidRoles env (in_Roles params) roles
              then Inl (Error ''invalid roles'')
              else Inr (in_Roles params)))
      else
        (case memorystore_GetStringStoreEnvVariable env EnvKeyDefaultRoles of
           Inl err \<Rightarrow> Inl err
         | Inr inputRolesString \<Rightarrow> Inr (Split inputRolesString CHR '','')))"

text \<open>
  Lines 119-160: the user to store. The error of \<open>crypto.EncryptPassword\<close> is dropped
  (\<open>password, _ := ...\<close>). \<open>if params.X != nil { user.X = params.X }\<close> on a field that is
  \<open>nil\<close> so far is \<open>assign_if_set\<close>.
\<close>

definition assign_if_set :: "'a option \<Rightarrow> 'a option \<Rightarrow> 'a option" where
  "assign_if_set param field = (if param \<noteq> None then param else field)"

definition SignupResolver_user ::
  "('db, 'm) collaborators_scheme \<Rightarrow> SignUpInput \<Rightarrow> string list \<Rightarrow> string \<Rightarrow> User" where
  "SignupResolver_user env params inputRoles method =
     (let user = new_user '''' (in_Email params);
          user = user\<lparr>Roles := Join inputRoles CHR '',''\<rparr>;
          password = fst (crypto_EncryptPassword env (in_Password params));
          user = user\<lparr>Password := Some password\<rparr>;
          user = user\<lparr>GivenName := assign_if_set (in_GivenName params) (GivenName user)\<rparr>;
          user = user\<lparr>FamilyName := assign_if_set (in_FamilyName params) (FamilyName user)\<rparr>;
          user = user\<lparr>MiddleName := assign_if_set (in_MiddleName params) (MiddleName user)\<rparr>;
          user = user\<lparr>Nickname := assign_if_set (in_Nickname params) (Nickname user)\<rparr>;
          user = user\<lparr>Gender := assign_if_set (in_Gender params) (Gender user)\<rparr>;
          user = user\<lparr>Birthdate := assign_if_set (in_Birthdate params) (Birthdate user)\<rparr>;
          user = user\<lparr>PhoneNumber := assign_if_set (in_PhoneNumber params) (PhoneNumber user)\<rparr>;
          user = user\<lparr>Picture := assign_if_set (in_Picture params) (Picture user)\<rparr>
      in user\<lparr>SignupMethods := method\<rparr>)"

text \<open>
  Lines 179-218: the branch with email verification. The one clock reading of this
  branch is the first of the run; thirty minutes are 1800 seconds.
\<close>

definition SignupResolver_verification ::
  "'db memorystore_collaborators \<Rightarrow> SignUpInput \<Rightarrow> GinContext \<Rightarrow> User \<Rightarrow> 'db world
     \<Rightarrow> (error + AuthResponse) \<times> 'db world" where
  "SignupResolver_verification env params gc user w =
     (let userToReturn = AsAPIUser env user;
          hostname = gc_Host gc
      in case utils_GenerateNonce env of
           Inl err \<Rightarrow> (Inl err, w)
         | Inr (nonce, nonceHash) \<Rightarrow>
             (let verificationType = VerificationTypeBasicAuthSignup env;
                  redirectURL = (case in_RedirectURI params of
                                   None \<Rightarrow> gc_AppURL gc
                                 | Some uri \<Rightarrow> uri)
              in case token_CreateVerificationToken env (in_Email params) verificationType
                        hostname nonceHash redirectURL of
                   Inl err \<Rightarrow> (Inl err, w)
                 | Inr verificationToken \<Rightarrow>
                     (case db_AddVerificationRequest env (db w)
                             \<lparr>vr_Token = verificationToken,
                              vr_Identifier = verificationType,
                              vr_ExpiresAt = time_Now_Unix env 0 + 1800,
                              vr_Email = in_Email params,
                              vr_Nonce = nonceHash,
                              vr_RedirectURI = redirectURL\<rparr> of
                        (Some err, db1) \<Rightarrow> (Inl err, w\<lparr>db := db1\<rparr>)
                      | (None, db1) \<Rightarrow>
                          (Inr \<lparr>res_Message =
                                  ''Verification email has been sent. Please check your inbox'',
                                res_AccessToken = None,
                                res_RefreshToken = None,
                                res_ExpiresIn = None,
                                res_User = Some userToReturn\<rparr>,
                           w\<lparr>db := db1,
                             background := background w @
                               [[SendVerificationMail (in_Email params) verificationToken hostname,
                                 RegisterEvent (UserCreatedWebhookEvent env)
                                   (AuthRecipeMethodBasicAuth env) user]]\<rparr>))))"

text \<open>
  Lines 219-261: the branch without email verification. The clock reading of line 231
  is the second of the run, after the one of line 167.
\<close>

definition SignupResolver_authenticated ::
  "'db memorystore_collaborators \<Rightarrow> SignUpInput \<Rightarrow> GinContext \<Rightarrow> User \<Rightarrow> 'db world
     \<Rightarrow> (error + AuthResponse) \<times> 'db world" where
  "SignupResolver_authenticated env params gc user w =
     (let roles = Split (Roles user) CHR '','';
          userToReturn = AsAPIUser env user;
          scope = [''openid'', ''email'', ''profile''];
          scope = (case in_Scope params of
                     None \<Rightarrow> scope
                   | Some paramsScope \<Rightarrow> if length scope > 0 then paramsScope else scope)
      in case token_CreateAuthToken env gc user roles scope (AuthRecipeMethodBasicAuth env) of
           Inl err \<Rightarrow> (Inl err, w)
         | Inr authToken \<Rightarrow>
             (let expiresIn = jwt_ExpiresAt (AccessToken authToken) - time_Now_Unix env 1;
                  expiresIn = (if sint expiresIn \<le> 0 then 1 else expiresIn);
                  res = \<lparr>res_Message = ''Signed up successfully.'',
                         res_AccessToken = Some (jwt_Token (AccessToken authToken)),
                         res_RefreshToken = None,
                         res_ExpiresIn = Some expiresIn,
                         res_User = Some userToReturn\<rparr>;
                  sessionKey = AuthRecipeMethodBasicAuth env @ '':'' @ ID user;
                  w = w\<lparr>cookies := cookies w @ [FingerPrintHash authToken]\<rparr>;
                  w = w\<lparr>user_sessions := user_sessions w @
                          [(sessionKey, TokenTypeSessionToken env @ ''_'' @ FingerPrint authToken,
                            FingerPrintHash authToken)]\<rparr>;
                  w = w\<lparr>user_sessions := user_sessions w @
                          [(sessionKey, TokenTypeAccessToken env @ ''_'' @ FingerPrint authToken,
                            jwt_Token (AccessToken authToken))]\<rparr>;
                  (res, w) =
                    (case RefreshToken authToken of
                       None \<Rightarrow> (res, w)
                     | Some refreshToken \<Rightarrow>
                         (res\<lparr>res_RefreshToken := Some (jwt_Token refreshToken)\<rparr>,
                          w\<lparr>user_sessions := user_sessions w @
                              [(sessionKey,
                                TokenTypeRefreshToken env @ ''_'' @ FingerPrint authToken,
                                jwt_Token refreshToken)]\<rparr>))
              in (Inr res,
                  w\<lparr>background := background w @
                      [[RegisterEvent (UserSignUpWebhookEvent env)
                          (AuthRecipeMethodBasicAuth env) user,
                        AddSession \<lparr>SessionID = '''', UserID = ID user,
                                    UserAgent = gc_UserAgent gc, IP = gc_IP gc\<rparr>]]\<rparr>)))"

text \<open>
  \<open>SignupResolver\<close>: the response or the error, and the state left behind. Every
  \<open>return res, err\<close> before the two branches returns the \<open>nil\<close> response.
\<close>

definition SignupResolver ::
  "'db memorystore_collaborators \<Rightarrow> SignUpInput \<Rightarrow> 'db world
     \<Rightarrow> (error + AuthResponse) \<times> 'db world" where
  "SignupResolver env params w =
     (case utils_GinContextFromContext env of
        Inl err \<Rightarrow> (Inl err, w)
      | Inr gc \<Rightarrow>
          if flag_or_true (memorystore_GetBoolStoreEnvVariable env EnvKeyDisableSignUp)
          then (Inl (Error ''signup is disabled for this instance''), w)
          else if flag_or_true
                    (memorystore_GetBoolStoreEnvVariable env EnvKeyDisableBasicAuthentication)
          then (Inl (Error ''basic authentication is disabled for this instance''), w)
          else if in_ConfirmPassword params \<noteq> in_Password params
          then (Inl (Error ''password and confirm password does not match''), w)
          else
            (case validators_IsValidPassword env (in_Password params) of
               Some err \<Rightarrow> (Inl err, w)
             | None \<Rightarrow>
                 (let params = params\<lparr>in_Email := ToLower (in_Email params)\<rparr> in
                  if \<not> validators_IsValidEmail env (in_Email params)
                  then (Inl (Error ''invalid email address''), w)
                  else
                    (let existingUser = fst (db_GetUserByEmail env (db w) (in_Email params)) in
                     if EmailVerifiedAt existingUser \<noteq> None
                     then (Inl (Error (in_Email params @ '' has already signed up'')), w)
                     else if ID existingUser \<noteq> '''' \<and> EmailVerifiedAt existingUser = None
                     then (Inl (Error (in_Email params @
                       '' has already signed up. please complete the email verification process or reset the password'')), w)
                     else
                       (case SignupResolver_inputRoles env params of
                          Inl err \<Rightarrow> (Inl err, w)
                        | Inr inputRoles \<Rightarrow>
                            (let user = SignupResolver_user env params inputRoles
                                          (AuthRecipeMethodBasicAuth env);
                                 isEmailVerificationDisabled =
                                   flag_or_true (memorystore_GetBoolStoreEnvVariable env
                                                   EnvKeyDisableEmailVerification);
                                 user = (if isEmailVerificationDisabled
                                         then user\<lparr>EmailVerifiedAt := Some (time_Now_Unix env 0)\<rparr>
                                         else user)
                             in case db_AddUser env (db w) user of
                                  ((user, Some err), db1) \<Rightarrow> (Inl err, w\<lparr>db := db1\<rparr>)
                                | ((user, None), db1) \<Rightarrow>
                                    if \<not> isEmailVerificationDisabled
                                    then SignupResolver_verification env params gc user
                                           (w\<lparr>db := db1\<rparr>)
                                    else SignupResolver_authenticated env params gc user
                                           (w\<lparr>db := db1\<rparr>)))))))"

subsection \<open>SignupResolver, second source file\<close>

text \<open>Lines 79-91: the roles asked for, or the default roles.\<close>

definition SignupResolver_envstore_inputRoles ::
  "'db envstore_collaborators \<Rightarrow> SignUpInput \<Rightarrow> error + string list" where
  "SignupResolver_envstore_inputRoles env params =
     (if length (in_Roles params) > 0 then
        (if \<not> utils_IsValidRoles env (envstore_GetSliceStoreEnvVariable env EnvKeyRoles)
                (in_Roles params)
         then Inl (Error ''invalid roles'')
         else Inr (in_Roles params))
      else Inr (envstore_GetSliceStoreEnvVariable env EnvKeyDefaultRoles))"

text \<open>Lines 148-184: the branch with email verification.\<close>

definition SignupResolver_envstore_verification ::
  "'db envstore_collaborators \<Rightarrow> SignUpInput \<Rightarrow> GinContext \<Rightarrow> User \<Rightarrow> 'db world
     \<Rightarrow> (error + AuthResponse) \<times> 'db world" where
  "SignupResolver_envstore_verification env params gc user w =
     (let userToReturn = AsAPIUser env user;
          hostname = gc_Host gc
      in case utils_GenerateNonce env of
           Inl err \<Rightarrow> (Inl err, w)
         | Inr (nonce, nonceHash) \<Rightarrow>
             (let verificationType = VerificationTypeBasicAuthSignup env;
                  redirectURL = (case in_RedirectURI params of
                                   None \<Rightarrow> gc_AppURL gc
                                 | Some uri \<Rightarrow> uri)
              in case token_CreateVerificationToken env (in_Email params) verificationType
                        hostname nonceHash redirectURL of
                   Inl err \<Rightarrow> (Inl err, w)
                 | Inr verificationToken \<Rightarrow>
                     (case db_AddVerificationRequest env (db w)
                             \<lparr>vr_Token = verificationToken,
                              vr_Identifier = verificationType,
                              vr_ExpiresAt = time_Now_Unix env 0 + 1800,
                              vr_Email = in_Email params,
                              vr_Nonce = nonceHash,
                              vr_RedirectURI = redirectURL\<rparr> of
                        (Some err, db1) \<Rightarrow> (Inl err, w\<lparr>db := db1\<rparr>)
                      | (None, db1) \<Rightarrow>
                          (Inr \<lparr>res_Message =
                                  ''Verification email has been sent. Please check your inbox'',
                                res_AccessToken = None,
                                res_RefreshToken = None,
                                res_ExpiresIn = None,
                                res_User = Some userToReturn\<rparr>,
                           w\<lparr>db := db1,
                             background := background w @
                               [[SendVerificationMail (in_Email params) verificationToken
                                   hostname]]\<rparr>))))"

text \<open>Lines 185-216: the branch without email verification.\<close>

definition SignupResolver_envstore_authenticated ::
  "'db envstore_collaborators \<Rightarrow> SignUpInput \<Rightarrow> GinContext \<Rightarrow> User \<Rightarrow> 'db world
     \<Rightarrow> (error + AuthResponse) \<times> 'db world" where
  "SignupResolver_envstore_authenticated env params gc user w =
     (let roles = Split (Roles user) CHR '','';
          userToReturn = AsAPIUser env user;
          scope = [''openid'', ''email'', ''profile''];
          scope = (case in_Scope params of
                     None \<Rightarrow> scope
                   | Some paramsScope \<Rightarrow> if length scope > 0 then paramsScope else scope)
      in case envstore_CreateAuthToken env gc user roles scope of
           Inl err \<Rightarrow> (Inl err, w)
         | Inr authToken \<Rightarrow>
             (let w = w\<lparr>session_states := session_states w @
                          [(FingerPrintHash authToken,
                            FingerPrint authToken @ ''@'' @ ID user)]\<rparr>;
                  w = w\<lparr>cookies := cookies w @ [FingerPrintHash authToken]\<rparr>;
                  w = w\<lparr>background := background w @
                          [[AddSession \<lparr>SessionID = '''', UserID = ID user,
                                        UserAgent = gc_UserAgent gc, IP = gc_IP gc\<rparr>]]\<rparr>;
                  expiresIn = jwt_ExpiresAt (AccessToken authToken) - time_Now_Unix env 1;
                  expiresIn = (if sint expiresIn \<le> 0 then 1 else expiresIn)
              in (Inr \<lparr>res_Message = ''Signed up successfully.'',
                        res_AccessToken = Some (jwt_Token (AccessToken authToken)),
                        res_RefreshToken = None,
                        res_ExpiresIn = Some expiresIn,
                        res_User = Some userToReturn\<rparr>,
                  w)))"

text \<open>
  \<open>SignupResolver\<close> of the second file. The flag \<open>EnvKeyDisableEmailVerification\<close> is
  read twice (lines 135 and 148), with the same answer.
\<close>

definition SignupResolver_envstore ::
  "'db envstore_collaborators \<Rightarrow> SignUpInput \<Rightarrow> 'db world
     \<Rightarrow> (error + AuthResponse) \<times> 'db world" where
  "SignupResolver_envstore env params w =
     (case utils_GinContextFromContext env of
        Inl err \<Rightarrow> (Inl err, w)
      | Inr gc \<Rightarrow>
          if envstore_GetBoolStoreEnvVariable env EnvKeyDisableSignUp
          then (Inl (Error ''signup is disabled for this instance''), w)
          else if envstore_GetBoolStoreEnvVariable env EnvKeyDisableBasicAuthentication
          then (Inl (Error ''basic authentication is disabled for this instance''), w)
          else if in_ConfirmPassword params \<noteq> in_Password params
          then (Inl (Error ''password and confirm password does not match''), w)
          else if \<not> utils_IsValidPassword env (in_Password params)
          then (Inl (Error ''password is not valid. It needs to be at least 6 characters long and contain at least one number, one uppercase letter, one lowercase letter and one special character''), w)
          else
            (let params = params\<lparr>in_Email := ToLower (in_Email params)\<rparr> in
             if \<not> utils_IsValidEmail env (in_Email params)
             then (Inl (Error ''invalid email address''), w)
             else
               (let existingUser = fst (db_GetUserByEmail env (db w) (in_Email params)) in
                if EmailVerifiedAt existingUser \<noteq> None
                then (Inl (Error (in_Email params @ '' has already signed up'')), w)
                else if ID existingUser \<noteq> '''' \<and> EmailVerifiedAt existingUser = None
                then (Inl (Error (in_Email params @
                  '' has already signed up. please complete the email verification process or reset the password'')), w)
                else
                  (case SignupResolver_envstore_inputRoles env params of
                     Inl err \<Rightarrow> (Inl err, w)
                   | Inr inputRoles \<Rightarrow>
                       (let user = SignupResolver_user env params inputRoles
                                     (SignupMethodBasicAuth env);
                            user = (if envstore_GetBoolStoreEnvVariable env
                                         EnvKeyDisableEmailVerification
                                    then user\<lparr>EmailVerifiedAt := Some (time_Now_Unix env 0)\<rparr>
                                    else user)
                        in case db_AddUser env (db w) user of
                             ((user, Some err), db1) \<Rightarrow> (Inl err, w\<lparr>db := db1\<rparr>)
                           | ((user, None), db1) \<Rightarrow>
                               if \<not> envstore_GetBoolStoreEnvVariable env
                                      EnvKeyDisableEmailVerification
                               then SignupResolver_envstore_verification env params gc user
                                      (w\<lparr>db := db1\<rparr>)
                               else SignupResolver_envstore_authenticated env params gc user
                                      (w\<lparr>db := db1\<rparr>))))))"

subsection \<open>Verification requests of one email and type\<close>

text \<open>Two verification requests are for the same pair of email and type.\<close>

definition same_request :: "VerificationRequest \<Rightarrow> VerificationRequest \<Rightarrow> bool" where
  "same_request a b \<longleftrightarrow> vr_Email a = vr_Email b \<and> vr_Identifier a = vr_Identifier b"


section \<open>Example collaborators\<close>

text \<open>
  A provider that keeps the users and the verification requests in two lists: a user
  is found by email, a new user gets an identifier, and a verification request
  replaces the earlier ones of the same email and identifier.
\<close>

type_synonym mem_db = "User list \<times> VerificationRequest list"

definition mem_GetUserByEmail :: "mem_db \<Rightarrow> string \<Rightarrow> User \<times> error option" where
  "mem_GetUserByEmail d mail =
     (case find (\<lambda>u. Email u = mail) (fst d) of
        Some u \<Rightarrow> (u, None)
      | None \<Rightarrow> (new_user '''' '''', Some (Error ''not found'')))"

definition mem_AddUser :: "mem_db \<Rightarrow> User \<Rightarrow> (User \<times> error option) \<times> mem_db" where
  "mem_AddUser d user =
     (let stored = (if ID user = '''' then user\<lparr>ID := ''new-id''\<rparr> else user)
      in ((stored, None), (fst d @ [stored], snd d)))"

definition mem_AddVerificationRequest ::
  "mem_db \<Rightarrow> VerificationRequest \<Rightarrow> error option \<times> mem_db" where
  "mem_AddVerificationRequest d r =
     (None, (fst d, filter (\<lambda>x. \<not> same_request x r) (snd d) @ [r]))"

definition example_gc :: GinContext where
  "example_gc =
     \<lparr>gc_Host = ''auth.example.com'', gc_AppURL = ''app.example.com'',
      gc_UserAgent = ''agent'', gc_IP = ''10.0.0.1''\<rparr>"

definition example_token :: AuthToken where
  "example_token =
     \<lparr>FingerPrint = ''fp'', FingerPrintHash = ''fph'',
      AccessToken = \<lparr>jwt_Token = ''access.jwt'', jwt_ExpiresAt = 900\<rparr>,
      RefreshToken = None\<rparr>"

definition example_projection :: "User \<Rightarrow> APIUser" where
  "example_projection u =
     \<lparr>api_ID = ID u, api_Email = Email u, api_Roles = Split (Roles u) CHR '',''\<rparr>"

text \<open>
  Collaborators of the first resolver: every flag is read as \<open>false\<close>, passwords of
  six characters and more and emails with an \<open>@\<close> are valid, the allowed roles are
  \<open>user\<close> and \<open>admin\<close> and the default role is \<open>user\<close>; the clock reads 1000 and then
  1001, after the access token has expired.
\<close>

definition example_env :: "mem_db memorystore_collaborators" where
  "example_env =
     \<lparr>utils_GinContextFromContext = Inr example_gc,
      crypto_EncryptPassword = (\<lambda>p. (''hash:'' @ p, None)),
      time_Now_Unix = (\<lambda>i. if i = 0 then 1000 else 1001),
      utils_GenerateNonce = Inr (''nonce'', ''noncehash''),
      token_CreateVerificationToken = (\<lambda>mail t host nonceHash url. Inr (''vt:'' @ mail)),
      db_GetUserByEmail = mem_GetUserByEmail,
      db_AddUser = mem_AddUser,
      db_AddVerificationRequest = mem_AddVerificationRequest,
      AsAPIUser = example_projection,
      VerificationTypeBasicAuthSignup = ''basic_auth_signup'',
      memorystore_GetBoolStoreEnvVariable = (\<lambda>k. Inr False),
      memorystore_GetStringStoreEnvVariable =
        (\<lambda>k. Inr (if k = EnvKeyRoles then ''user,admin'' else ''user'')),
      validators_IsValidPassword =
        (\<lambda>p. if length p < 6 then Some (Error ''password is not valid'') else None),
      validators_IsValidEmail = (\<lambda>mail. CHR ''@'' \<in> set mail),
      validators_IsValidRoles = (\<lambda>requested allowed. list_all (\<lambda>r. r \<in> set allowed) requested),
      token_CreateAuthToken = (\<lambda>gc u roles scope method. Inr example_token),
      AuthRecipeMethodBasicAuth = ''basic_auth'',
      TokenTypeSessionToken = ''session_token'',
      TokenTypeAccessToken = ''access_token'',
      TokenTypeRefreshToken = ''refresh_token'',
      UserCreatedWebhookEvent = ''user.created'',
      UserSignUpWebhookEvent = ''user.signup''\<rparr>"

definition example_input :: SignUpInput where
  "example_input =
     \<lparr>in_Email = ''A@B.com'', in_Password = ''Abc123!@'', in_ConfirmPassword = ''Abc123!@'',
      in_Roles = [], in_Scope = None, in_GivenName = None, in_FamilyName = None,
      in_MiddleName = None, in_Nickname = None, in_Gender = None, in_Birthdate = None,
      in_PhoneNumber = None, in_Picture = None, in_RedirectURI = None\<rparr>"

definition example_world :: "mem_db \<Rightarrow> mem_db world" where
  "example_world d =
     \<lparr>db = d, user_sessions = [], session_states = [], cookies = [], background = []\<rparr>"

text \<open>A user who has completed the email verification.\<close>

definition verified_user :: User where
  "verified_user = (new_user ''u1'' ''a@b.com'')\<lparr>EmailVerifiedAt := Some 500\<rparr>"

text \<open>The flag store cannot be read.\<close>

definition unreadable :: "EnvKey \<Rightarrow> error + bool" where
  "unreadable k = Inl (Error ''store unavailable'')"

definition unreadable_basic_auth :: "EnvKey \<Rightarrow> error + bool" where
  "unreadable_basic_auth k =
     (if k = EnvKeyDisableBasicAuthentication then Inl (Error ''store unavailable'')
      else Inr False)"

section \<open>Properties of the Cassandra provider\<close>

subsection \<open>DeleteUser\<close>

lemma scan_session_ids_clean:
  assumes "\<forall>x \<in> set rows. sf x = None"
  shows "\<exists>t. scan_session_ids sf rows (t0, ids) = Inr (t, ids @ rows)"
  using assms
proof (induction rows arbitrary: t0 ids)
  case Nil
  then show ?case by simp
next
  case (Cons a rows)
  from Cons.prems have "\<forall>x \<in> set rows. sf x = None" and a: "sf a = None" by auto
  from Cons.IH [OF this(1), of "t0 @ [CHR 0x27] @ a @ [CHR 0x27] @ '',''" "ids @ [a]"] a
  show ?case by simp
qed

text \<open>
  C3, as the code has it. With the sessions of the user enumerated without fault,
  \<open>DeleteUser\<close> deletes the user row first and the session rows after it: when the user
  delete fails, the error is returned and nothing has changed; when the session delete
  fails, the error is returned, the user row is already gone and the session rows are
  all still there; when neither fails, the result is \<open>nil\<close>, and neither a row of that
  user nor a session row of that user is left.
\<close>

theorem DeleteUser_user_row_first:
  assumes sel: "exec_fault p SelectSessionIDsStmt = None"
    and scan: "\<forall>s \<in> set (session_rows p).
                 UserID s = ID u \<longrightarrow> session_scan_fault p (SessionID s) = None"
  shows "DeleteUser p u =
     (case exec_fault p DeleteUserStmt of
        Some e \<Rightarrow> (Some e, p)
      | None \<Rightarrow>
         (case exec_fault p DeleteSessionsStmt of
            Some e \<Rightarrow> (Some e, p\<lparr>user_rows := filter (\<lambda>x. ID x \<noteq> ID u) (user_rows p)\<rparr>)
          | None \<Rightarrow>
              (None, p\<lparr>user_rows := filter (\<lambda>x. ID x \<noteq> ID u) (user_rows p),
                       session_rows :=
                         filter (\<lambda>s. SessionID s \<notin>
                                   set (map SessionID
                                          (filter (\<lambda>x. UserID x = ID u) (session_rows p))))
                           (session_rows p)\<rparr>)))
     \<and> (fst (DeleteUser p u) = None \<longrightarrow>
          (\<forall>s \<in> set (session_rows (snd (DeleteUser p u))). UserID s \<noteq> ID u)
          \<and> (\<forall>x \<in> set (user_rows (snd (DeleteUser p u))). ID x \<noteq> ID u))"
proof -
  let ?p1 = "p\<lparr>user_rows := filter (\<lambda>x. ID x \<noteq> ID u) (user_rows p)\<rparr>"
  let ?rows = "map SessionID (filter (\<lambda>s. UserID s = ID u) (session_rows p))"
  have "\<forall>x \<in> set ?rows. session_scan_fault p x = None"
    using scan by auto
  then obtain t where
    t: "scan_session_ids (session_scan_fault p) ?rows ('''', []) = Inr (t, [] @ ?rows)"
    using scan_session_ids_clean by blast
  have eq: "DeleteUser p u =
     (case exec_fault p DeleteUserStmt of
        Some e \<Rightarrow> (Some e, p)
      | None \<Rightarrow>
         (case exec_fault p DeleteSessionsStmt of
            Some e \<Rightarrow> (Some e, ?p1)
          | None \<Rightarrow>
              (None, ?p1\<lparr>session_rows :=
                            filter (\<lambda>s. SessionID s \<notin> set ?rows) (session_rows p)\<rparr>)))"
    using sel t
    by (simp add: DeleteUser_def exec_delete_user_def select_session_ids_def
        exec_delete_sessions_def split: option.splits)
  show ?thesis
    unfolding eq by (auto split: option.splits)
qed

theorem DeleteUser_user_row_first_witness:
  "DeleteUser store_with_sessions (new_user ''u1'' ''a1@b.com'') =
     (None, store_with_sessions
        \<lparr>user_rows := [new_user ''u2'' ''a2@b.com''],
         session_rows := [\<lparr>SessionID = ''s2'', UserID = ''u2'', UserAgent = '''', IP = ''''\<rparr>]\<rparr>)"
proof -
  let ?u = "new_user ''u1'' ''a1@b.com''"
  have sel: "exec_fault store_with_sessions SelectSessionIDsStmt = None"
    by (simp add: store_with_sessions_def no_fault_def)
  have scan: "\<forall>s \<in> set (session_rows store_with_sessions).
                UserID s = ID ?u \<longrightarrow>
                session_scan_fault store_with_sessions (SessionID s) = None"
    by (simp add: store_with_sessions_def no_fault_def)
  have del: "exec_fault store_with_sessions DeleteUserStmt = None"
    "exec_fault store_with_sessions DeleteSessionsStmt = None"
    by (simp_all add: store_with_sessions_def no_fault_def)
  have users: "filter (\<lambda>x. ID x \<noteq> ID ?u) (user_rows store_with_sessions) =
                 [new_user ''u2'' ''a2@b.com'']"
    by (simp add: store_with_sessions_def new_user_def)
  have sessions: "filter (\<lambda>s. SessionID s \<notin>
                     set (map SessionID (filter (\<lambda>x. UserID x = ID ?u)
                            (session_rows store_with_sessions))))
                    (session_rows store_with_sessions) =
                  [\<lparr>SessionID = ''s2'', UserID = ''u2'', UserAgent = '''', IP = ''''\<rparr>]"
    by (simp add: store_with_sessions_def new_user_def)
  from DeleteUser_user_row_first [OF sel scan] show ?thesis
    by (simp only: del users sessions option.case)
qed

text \<open>
  C3, as the specification states it, fails: with a session delete that fails, the
  error is returned, yet the user row has been deleted and the session row of that
  user is still stored.
\<close>

theorem DeleteUser_orphans_sessions_counterexample:
  "DeleteUser store_failing_session_delete (new_user ''u1'' ''a@b.com'') =
     (Some (Error ''unavailable''), store_failing_session_delete\<lparr>user_rows := []\<rparr>)
   \<and> session_rows (store_failing_session_delete\<lparr>user_rows := []\<rparr>) =
       [\<lparr>SessionID = ''s1'', UserID = ''u1'', UserAgent = '''', IP = ''''\<rparr>]"
  by (simp add: DeleteUser_def exec_delete_user_def select_session_ids_def
      exec_delete_sessions_def store_failing_session_delete_def new_user_def no_fault_def)

subsection \<open>ListUsers\<close>

lemma sint_succ64:
  fixes c :: int64
  assumes "0 \<le> sint c" "sint c < 2 ^ 63 - 1"
  shows "sint (c + 1) = sint c + 1"
  using assms by (simp add: sint_word_ariths signed_take_bit_int_eq_self)

lemma sint_lt_2p63: "sint (n :: int64) < 2 ^ 63"
  using sint_lt [of n] by simp

lemma ListUsers_loop_drop:
  assumes "\<forall>r \<in> set rows. sf r = None" "0 \<le> sint c"
    and "sint c + int (length rows) < 2 ^ 63"
  shows "ListUsers_loop sf f off rows c acc =
           Inr (acc @ map f (drop (nat (sint off - sint c)) rows))"
  using assms
proof (induction rows arbitrary: c acc)
  case Nil
  then show ?case by simp
next
  case (Cons r rs)
  have s: "sint (c + 1) = sint c + 1"
    using Cons.prems by (intro sint_succ64) auto
  have ih: "ListUsers_loop sf f off rs (c + 1) acc' =
              Inr (acc' @ map f (drop (nat (sint off - sint (c + 1))) rs))" for acc'
    using Cons.prems s by (intro Cons.IH) auto
  show ?case
  proof (cases "sint off \<le> sint c")
    case True
    then show ?thesis using Cons.prems ih s by simp
  next
    case False
    then have "nat (sint off - sint c) = Suc (nat (sint off - (sint c + 1)))"
      by simp
    then show ?thesis using False ih s by simp
  qed
qed

lemma select_users_limit_take:
  "exec_fault p SelectUsersStmt = None \<Longrightarrow>
   select_users_limit p n = take (nat (sint n)) (user_rows p)"
  by (simp add: select_users_limit_def)

text \<open>
  Whatever the limit and the offset are, a fault-free \<open>ListUsers\<close> fetches
  \<open>Limit + Offset\<close> rows (in \<open>int64\<close>) and drops the first \<open>Offset\<close> of them.
\<close>

lemma ListUsers_general:
  assumes cnt: "exec_fault p CountUsersStmt = None"
    and sel: "exec_fault p SelectUsersStmt = None"
    and scan: "\<forall>r \<in> set (user_rows p). user_scan_fault p r = None"
  shows "ListUsers p f pg =
     Inr \<lparr>UsersList = map f (drop (nat (sint (Offset pg)))
                          (take (nat (sint (Limit pg + Offset pg))) (user_rows p))),
          UsersPagination = pg\<lparr>Total := of_nat (length (user_rows p))\<rparr>\<rparr>"
proof -
  let ?n = "Limit pg + Offset pg"
  let ?rows = "take (nat (sint ?n)) (user_rows p)"
  have a: "\<forall>r \<in> set ?rows. user_scan_fault p r = None"
    using scan by (meson in_set_takeD)
  have "int (length ?rows) \<le> max 0 (sint ?n)"
    by simp
  then have b: "sint (0::int64) + int (length ?rows) < 2 ^ 63"
    using sint_lt_2p63 [of ?n] by simp
  have "ListUsers_loop (user_scan_fault p) f (Offset pg) ?rows 0 [] =
        Inr ([] @ map f (drop (nat (sint (Offset pg) - sint (0::int64))) ?rows))"
    by (rule ListUsers_loop_drop [OF a _ b]) simp
  then show ?thesis
    using cnt sel by (simp add: ListUsers_def count_users_def select_users_limit_take)
qed

text \<open>
  C4. For every stored list of users and every pagination with a limit and an offset
  that are not negative and whose sum fits \<open>int64\<close>, a fault-free \<open>ListUsers\<close> fetches
  limit + offset rows, discards the first offset of them and returns the projections
  of the rest, at most limit of them, with \<open>Total\<close> from the count query. Over five
  users, limit 2 and offset 1 return the second and the third user of the scan, and
  \<open>Total\<close> is 5.
\<close>

theorem ListUsers_offset_emulation:
  assumes cnt: "exec_fault p CountUsersStmt = None"
    and sel: "exec_fault p SelectUsersStmt = None"
    and scan: "\<forall>r \<in> set (user_rows p). user_scan_fault p r = None"
    and lim: "0 \<le> sint (Limit pg)" and off: "0 \<le> sint (Offset pg)"
    and fits: "sint (Limit pg) + sint (Offset pg) < 2 ^ 63"
  shows "ListUsers p f pg =
           Inr \<lparr>UsersList =
                  map f (drop (nat (sint (Offset pg)))
                           (take (nat (sint (Limit pg)) + nat (sint (Offset pg)))
                              (user_rows p))),
                UsersPagination = pg\<lparr>Total := of_nat (length (user_rows p))\<rparr>\<rparr>
         \<and> length (drop (nat (sint (Offset pg)))
                     (take (nat (sint (Limit pg)) + nat (sint (Offset pg))) (user_rows p)))
             \<le> nat (sint (Limit pg))
         \<and> (\<forall>u1 u2 u3 u4 u5.
               user_rows p = [u1, u2, u3, u4, u5] \<and> Limit pg = 2 \<and> Offset pg = 1 \<longrightarrow>
               ListUsers p f pg =
                 Inr \<lparr>UsersList = [f u2, f u3], UsersPagination = pg\<lparr>Total := 5\<rparr>\<rparr>)"
proof -
  have "sint (Limit pg + Offset pg) = sint (Limit pg) + sint (Offset pg)"
    using lim off fits by (simp add: sint_word_ariths signed_take_bit_int_eq_self)
  then have n: "nat (sint (Limit pg + Offset pg)) =
                nat (sint (Limit pg)) + nat (sint (Offset pg))"
    using lim off by (simp add: nat_add_distrib)
  show ?thesis
    using ListUsers_general [OF cnt sel scan, of f pg] n by auto
qed

theorem ListUsers_offset_emulation_witness:
  "ListUsers store_five_users ID \<lparr>Limit = 2, Page = 1, Offset = 1, Total = 0\<rparr> =
     Inr \<lparr>UsersList = [''u2'', ''u3''],
          UsersPagination = \<lparr>Limit = 2, Page = 1, Offset = 1, Total = 5\<rparr>\<rparr>"
  using ListUsers_offset_emulation
    [of store_five_users "\<lparr>Limit = 2, Page = 1, Offset = 1, Total = 0\<rparr>" ID]
  by (simp add: store_five_users_def new_user_def no_fault_def)

section \<open>Properties of the query texts\<close>

subsection \<open>Decimal numerals\<close>


lemma digit_cases:
  assumes "d < (10::nat)"
  obtains "d = 0" | "d = 1" | "d = 2" | "d = 3" | "d = 4"
    | "d = 5" | "d = 6" | "d = 7" | "d = 8" | "d = 9"
  using assms by atomize_elim presburger



lemma digit_char_not_quote: "d < 10 \<Longrightarrow> digit_char d \<noteq> CHR 0x27"
  by (erule digit_cases) (simp_all add: digit_char_def)





subsection \<open>The loops of AddUser and UpdateUser\<close>


lemma AddUser_loop_fields:
  "fst (AddUser_loop entries (f, v)) =
     f @ concat (map (\<lambda>(k, x). (if k = ''_id'' then ''id'' else k) @ '','')
                   (filter (\<lambda>(k, x). x \<noteq> VNil) entries))"
  by (induction entries arbitrary: f v) auto



subsection \<open>String values in the query texts\<close>









section \<open>Properties of the signup resolver\<close>

subsection \<open>Feature flags\<close>

text \<open>
  C2. With a request context at hand, a failing read of the signup flag makes
  \<open>SignupResolver\<close> return the error that signup is disabled, and, with signup read as
  enabled, a failing read of the basic-authentication flag makes it return the error
  that basic authentication is disabled; in both cases the state is untouched: no
  user is stored, no token is issued, nothing is sent.
\<close>

theorem SignupResolver_flags_fail_closed:
  assumes gin: "utils_GinContextFromContext env = Inr gc"
  shows "(\<forall>e. memorystore_GetBoolStoreEnvVariable env EnvKeyDisableSignUp = Inl e \<longrightarrow>
            SignupResolver env params w =
              (Inl (Error ''signup is disabled for this instance''), w))
       \<and> (\<forall>e. memorystore_GetBoolStoreEnvVariable env EnvKeyDisableSignUp = Inr False
              \<and> memorystore_GetBoolStoreEnvVariable env EnvKeyDisableBasicAuthentication = Inl e \<longrightarrow>
            SignupResolver env params w =
              (Inl (Error ''basic authentication is disabled for this instance''), w))"
  using gin by (simp add: SignupResolver_def flag_or_true_def)

theorem SignupResolver_flags_fail_closed_witness:
  "SignupResolver (example_env\<lparr>memorystore_GetBoolStoreEnvVariable := unreadable\<rparr>)
       example_input (example_world ([], [])) =
     (Inl (Error ''signup is disabled for this instance''), example_world ([], []))
   \<and> SignupResolver (example_env\<lparr>memorystore_GetBoolStoreEnvVariable := unreadable_basic_auth\<rparr>)
       example_input (example_world ([], [])) =
     (Inl (Error ''basic authentication is disabled for this instance''), example_world ([], []))"
proof -
  let ?e1 = "example_env\<lparr>memorystore_GetBoolStoreEnvVariable := unreadable\<rparr>"
  let ?e2 = "example_env\<lparr>memorystore_GetBoolStoreEnvVariable := unreadable_basic_auth\<rparr>"
  have g1: "utils_GinContextFromContext ?e1 = Inr example_gc"
    and g2: "utils_GinContextFromContext ?e2 = Inr example_gc"
    by (simp_all add: example_env_def)
  have r1: "memorystore_GetBoolStoreEnvVariable ?e1 EnvKeyDisableSignUp = Inl (Error ''store unavailable'')"
    by (simp add: unreadable_def)
  have r2: "memorystore_GetBoolStoreEnvVariable ?e2 EnvKeyDisableSignUp = Inr False
      \<and> memorystore_GetBoolStoreEnvVariable ?e2 EnvKeyDisableBasicAuthentication = Inl (Error ''store unavailable'')"
    by (simp add: unreadable_basic_auth_def)
  from SignupResolver_flags_fail_closed [OF g1, of example_input "example_world ([], [])"] r1
  have a: "SignupResolver ?e1 example_input (example_world ([], [])) =
     (Inl (Error ''signup is disabled for this instance''), example_world ([], []))"
    by blast
  from SignupResolver_flags_fail_closed [OF g2, of example_input "example_world ([], [])"] r2
  have b: "SignupResolver ?e2 example_input (example_world ([], [])) =
     (Inl (Error ''basic authentication is disabled for this instance''), example_world ([], []))"
    by blast
  from a b show ?thesis by (rule conjI)
qed
subsection \<open>Duplicate emails\<close>

text \<open>
  C1. For a signup input that reaches the lookup (a request context, signup and basic
  authentication read as enabled, matching passwords, a valid password and a valid
  lower-cased email): when the user found for the lower-cased email has a verification
  time, \<open>SignupResolver\<close> returns the error that the email has already signed up; when
  the user found has an identifier and no verification time, it returns the error
  that verification is pending; either way there is no response, hence no token, and
  the state is untouched, hence no new user.
\<close>

theorem SignupResolver_rejects_existing_email:
  assumes gin: "utils_GinContextFromContext env = Inr gc"
    and signup: "memorystore_GetBoolStoreEnvVariable env EnvKeyDisableSignUp = Inr False"
    and basic: "memorystore_GetBoolStoreEnvVariable env EnvKeyDisableBasicAuthentication = Inr False"
    and confirm: "in_ConfirmPassword params = in_Password params"
    and password: "validators_IsValidPassword env (in_Password params) = None"
    and email: "validators_IsValidEmail env (ToLower (in_Email params))"
    and existing: "fst (db_GetUserByEmail env (db w) (ToLower (in_Email params))) = existingUser"
  shows "(EmailVerifiedAt existingUser \<noteq> None \<longrightarrow>
            SignupResolver env params w =
              (Inl (Error (ToLower (in_Email params) @ '' has already signed up'')), w))
       \<and> (ID existingUser \<noteq> '''' \<and> EmailVerifiedAt existingUser = None \<longrightarrow>
            SignupResolver env params w =
              (Inl (Error (ToLower (in_Email params) @
                 '' has already signed up. please complete the email verification process or reset the password'')), w))"
  using assms by (simp add: SignupResolver_def flag_or_true_def Let_def)

theorem SignupResolver_rejects_existing_email_witness:
  "SignupResolver example_env example_input (example_world ([verified_user], [])) =
     (Inl (Error ''a@b.com has already signed up''), example_world ([verified_user], []))
   \<and> SignupResolver example_env example_input (example_world ([new_user ''u1'' ''a@b.com''], [])) =
     (Inl (Error ''a@b.com has already signed up. please complete the email verification process or reset the password''),
      example_world ([new_user ''u1'' ''a@b.com''], []))"
proof -
  have lower: "ToLower (in_Email example_input) = ''a@b.com''"
    by (simp add: example_input_def ToLower_def lower_char_def)
  have gin: "utils_GinContextFromContext example_env = Inr example_gc"
    and signup: "memorystore_GetBoolStoreEnvVariable example_env EnvKeyDisableSignUp = Inr False"
    and basic: "memorystore_GetBoolStoreEnvVariable example_env EnvKeyDisableBasicAuthentication = Inr False"
    and confirm: "in_ConfirmPassword example_input = in_Password example_input"
    and password: "validators_IsValidPassword example_env (in_Password example_input) = None"
    by (simp_all add: example_env_def example_input_def)
  have email: "validators_IsValidEmail example_env (ToLower (in_Email example_input))"
    unfolding lower by (simp add: example_env_def)
  have e1: "fst (db_GetUserByEmail example_env (db (example_world ([verified_user], [])))
                  (ToLower (in_Email example_input))) = verified_user"
    unfolding lower
    by (simp add: example_env_def example_world_def mem_GetUserByEmail_def verified_user_def new_user_def)
  have e2: "fst (db_GetUserByEmail example_env (db (example_world ([new_user ''u1'' ''a@b.com''], [])))
                  (ToLower (in_Email example_input))) = new_user ''u1'' ''a@b.com''"
    unfolding lower
    by (simp add: example_env_def example_world_def mem_GetUserByEmail_def new_user_def)
  have v1: "EmailVerifiedAt verified_user \<noteq> None"
    by (simp add: verified_user_def)
  have v2: "ID (new_user ''u1'' ''a@b.com'') \<noteq> '''' \<and> EmailVerifiedAt (new_user ''u1'' ''a@b.com'') = None"
    by (simp add: new_user_def)
  from SignupResolver_rejects_existing_email [OF gin signup basic confirm password email e1] v1
  have a: "SignupResolver example_env example_input (example_world ([verified_user], [])) =
     (Inl (Error (ToLower (in_Email example_input) @ '' has already signed up'')), example_world ([verified_user], []))"
    by blast
  from SignupResolver_rejects_existing_email [OF gin signup basic confirm password email e2] v2
  have b: "SignupResolver example_env example_input (example_world ([new_user ''u1'' ''a@b.com''], [])) =
     (Inl (Error (ToLower (in_Email example_input) @
        '' has already signed up. please complete the email verification process or reset the password'')),
      example_world ([new_user ''u1'' ''a@b.com''], []))"
    by blast
  from a b show ?thesis
    unfolding lower by simp
qed
subsection \<open>The path to the two branches\<close>

lemma SignupResolver_after_checks:
  assumes gin: "utils_GinContextFromContext env = Inr gc"
    and signup: "memorystore_GetBoolStoreEnvVariable env EnvKeyDisableSignUp = Inr False"
    and basic: "memorystore_GetBoolStoreEnvVariable env EnvKeyDisableBasicAuthentication = Inr False"
    and confirm: "in_ConfirmPassword params = in_Password params"
    and password: "validators_IsValidPassword env (in_Password params) = None"
    and email: "validators_IsValidEmail env (ToLower (in_Email params))"
    and existing: "EmailVerifiedAt (fst (db_GetUserByEmail env (db w) (ToLower (in_Email params)))) = None"
      "ID (fst (db_GetUserByEmail env (db w) (ToLower (in_Email params)))) = ''''"
    and roles: "SignupResolver_inputRoles env (params\<lparr>in_Email := ToLower (in_Email params)\<rparr>) = Inr inputRoles"
    and add: "db_AddUser env (db w)
                (if flag_or_true (memorystore_GetBoolStoreEnvVariable env EnvKeyDisableEmailVerification)
                 then (SignupResolver_user env (params\<lparr>in_Email := ToLower (in_Email params)\<rparr>)
                         inputRoles (AuthRecipeMethodBasicAuth env))
                      \<lparr>EmailVerifiedAt := Some (time_Now_Unix env 0)\<rparr>
                 else SignupResolver_user env (params\<lparr>in_Email := ToLower (in_Email params)\<rparr>)
                         inputRoles (AuthRecipeMethodBasicAuth env))
              = ((user, None), db1)"
  shows "SignupResolver env params w =
           (if \<not> flag_or_true (memorystore_GetBoolStoreEnvVariable env EnvKeyDisableEmailVerification)
            then SignupResolver_verification env (params\<lparr>in_Email := ToLower (in_Email params)\<rparr>)
                   gc user (w\<lparr>db := db1\<rparr>)
            else SignupResolver_authenticated env (params\<lparr>in_Email := ToLower (in_Email params)\<rparr>)
                   gc user (w\<lparr>db := db1\<rparr>))"
  using gin signup basic confirm password email existing roles add
  by (simp add: SignupResolver_def flag_or_true_def Let_def)

lemma SignupResolver_envstore_after_checks:
  assumes gin: "utils_GinContextFromContext env = Inr gc"
    and signup: "\<not> envstore_GetBoolStoreEnvVariable env EnvKeyDisableSignUp"
    and basic: "\<not> envstore_GetBoolStoreEnvVariable env EnvKeyDisableBasicAuthentication"
    and confirm: "in_ConfirmPassword params = in_Password params"
    and password: "utils_IsValidPassword env (in_Password params)"
    and email: "utils_IsValidEmail env (ToLower (in_Email params))"
    and existing: "EmailVerifiedAt (fst (db_GetUserByEmail env (db w) (ToLower (in_Email params)))) = None"
      "ID (fst (db_GetUserByEmail env (db w) (ToLower (in_Email params)))) = ''''"
    and roles: "SignupResolver_envstore_inputRoles env (params\<lparr>in_Email := ToLower (in_Email params)\<rparr>) = Inr inputRoles"
    and add: "db_AddUser env (db w)
                (if envstore_GetBoolStoreEnvVariable env EnvKeyDisableEmailVerification
                 then (SignupResolver_user env (params\<lparr>in_Email := ToLower (in_Email params)\<rparr>)
                         inputRoles (SignupMethodBasicAuth env))
                      \<lparr>EmailVerifiedAt := Some (time_Now_Unix env 0)\<rparr>
                 else SignupResolver_user env (params\<lparr>in_Email := ToLower (in_Email params)\<rparr>)
                         inputRoles (SignupMethodBasicAuth env))
              = ((user, None), db1)"
  shows "SignupResolver_envstore env params w =
           (if \<not> envstore_GetBoolStoreEnvVariable env EnvKeyDisableEmailVerification
            then SignupResolver_envstore_verification env (params\<lparr>in_Email := ToLower (in_Email params)\<rparr>)
                   gc user (w\<lparr>db := db1\<rparr>)
            else SignupResolver_envstore_authenticated env (params\<lparr>in_Email := ToLower (in_Email params)\<rparr>)
                   gc user (w\<lparr>db := db1\<rparr>))"
  using gin signup basic confirm password email existing roles add
  by (simp add: SignupResolver_envstore_def Let_def)
subsection \<open>The authenticated branch\<close>

lemma expiresIn_at_least_one:
  fixes a b :: int64
  shows "sint (if sint (a - b) \<le> 0 then 1 else a - b) = max 1 (sint (a - b))"
    and "1 \<le> sint (if sint (a - b) \<le> 0 then 1 else a - b)"
  by (simp_all add: max_def)

lemma sint_minus_fits:
  fixes a b :: int64
  assumes "- (2 ^ 63) \<le> sint a - sint b" "sint a - sint b < 2 ^ 63"
  shows "sint (a - b) = sint a - sint b"
  using assms by (simp add: sint_word_ariths signed_take_bit_int_eq_self)

lemma SignupResolver_authenticated_response:
  assumes "token_CreateAuthToken env gc user (Split (Roles user) CHR '','')
             (case in_Scope params of None \<Rightarrow> [''openid'', ''email'', ''profile'']
              | Some paramsScope \<Rightarrow> paramsScope)
             (AuthRecipeMethodBasicAuth env) = Inr authToken"
  shows "fst (SignupResolver_authenticated env params gc user w) =
           Inr \<lparr>res_Message = ''Signed up successfully.'',
                res_AccessToken = Some (jwt_Token (AccessToken authToken)),
                res_RefreshToken = map_option jwt_Token (RefreshToken authToken),
                res_ExpiresIn =
                  Some (if sint (jwt_ExpiresAt (AccessToken authToken) - time_Now_Unix env 1) \<le> 0
                        then 1
                        else jwt_ExpiresAt (AccessToken authToken) - time_Now_Unix env 1),
                res_User = Some (AsAPIUser env user)\<rparr>"
proof (cases "in_Scope params")
  case None
  with assms show ?thesis
    by (cases "RefreshToken authToken") (simp_all add: SignupResolver_authenticated_def Let_def)
next
  case (Some paramsScope)
  with assms show ?thesis
    by (cases "RefreshToken authToken") (simp_all add: SignupResolver_authenticated_def Let_def)
qed

lemma SignupResolver_envstore_authenticated_response:
  assumes "envstore_CreateAuthToken env gc user (Split (Roles user) CHR '','')
             (case in_Scope params of None \<Rightarrow> [''openid'', ''email'', ''profile'']
              | Some paramsScope \<Rightarrow> paramsScope) = Inr authToken"
  shows "fst (SignupResolver_envstore_authenticated env params gc user w) =
           Inr \<lparr>res_Message = ''Signed up successfully.'',
                res_AccessToken = Some (jwt_Token (AccessToken authToken)),
                res_RefreshToken = None,
                res_ExpiresIn =
                  Some (if sint (jwt_ExpiresAt (AccessToken authToken) - time_Now_Unix env 1) \<le> 0
                        then 1
                        else jwt_ExpiresAt (AccessToken authToken) - time_Now_Unix env 1),
                res_User = Some (AsAPIUser env user)\<rparr>"
proof (cases "in_Scope params")
  case None
  with assms show ?thesis
    by (simp add: SignupResolver_envstore_authenticated_def Let_def)
next
  case (Some paramsScope)
  with assms show ?thesis
    by (simp add: SignupResolver_envstore_authenticated_def Let_def)
qed

text \<open>
  C6. For a signup input that passes every check, with email verification disabled
  (read as disabled, or unreadable), a stored user and an issued token,
  \<open>SignupResolver\<close> answers with \<open>ExpiresIn\<close> equal to the maximum of 1 and the
  \<open>int64\<close> difference between the expiry of the access token and the clock, which is
  the maximum of 1 and the difference of the two numbers whenever that difference
  fits \<open>int64\<close>; it is at least 1. The response carries the access token of the
  issuer, which is not empty when the issuer's token is not.
\<close>

theorem SignupResolver_expiresIn_positive:
  assumes gin: "utils_GinContextFromContext env = Inr gc"
    and signup: "memorystore_GetBoolStoreEnvVariable env EnvKeyDisableSignUp = Inr False"
    and basic: "memorystore_GetBoolStoreEnvVariable env EnvKeyDisableBasicAuthentication = Inr False"
    and confirm: "in_ConfirmPassword params = in_Password params"
    and password: "validators_IsValidPassword env (in_Password params) = None"
    and email: "validators_IsValidEmail env (ToLower (in_Email params))"
    and existing: "EmailVerifiedAt (fst (db_GetUserByEmail env (db w) (ToLower (in_Email params)))) = None"
      "ID (fst (db_GetUserByEmail env (db w) (ToLower (in_Email params)))) = ''''"
    and roles: "SignupResolver_inputRoles env (params\<lparr>in_Email := ToLower (in_Email params)\<rparr>) = Inr inputRoles"
    and disabled: "flag_or_true (memorystore_GetBoolStoreEnvVariable env EnvKeyDisableEmailVerification)"
    and add: "db_AddUser env (db w)
                ((SignupResolver_user env (params\<lparr>in_Email := ToLower (in_Email params)\<rparr>)
                    inputRoles (AuthRecipeMethodBasicAuth env))
                 \<lparr>EmailVerifiedAt := Some (time_Now_Unix env 0)\<rparr>)
              = ((user, None), db1)"
    and token: "token_CreateAuthToken env gc user (Split (Roles user) CHR '','')
                  (case in_Scope params of None \<Rightarrow> [''openid'', ''email'', ''profile'']
                   | Some paramsScope \<Rightarrow> paramsScope)
                  (AuthRecipeMethodBasicAuth env) = Inr authToken"
  shows "\<exists>res expiresIn.
           fst (SignupResolver env params w) = Inr res
         \<and> res_ExpiresIn res = Some expiresIn
         \<and> sint expiresIn = max 1 (sint (jwt_ExpiresAt (AccessToken authToken) - time_Now_Unix env 1))
         \<and> 1 \<le> sint expiresIn
         \<and> (- (2 ^ 63) \<le> sint (jwt_ExpiresAt (AccessToken authToken)) - sint (time_Now_Unix env 1)
              \<and> sint (jwt_ExpiresAt (AccessToken authToken)) - sint (time_Now_Unix env 1) < 2 ^ 63
              \<longrightarrow> sint expiresIn =
                    max 1 (sint (jwt_ExpiresAt (AccessToken authToken)) - sint (time_Now_Unix env 1)))
         \<and> res_AccessToken res = Some (jwt_Token (AccessToken authToken))
         \<and> (jwt_Token (AccessToken authToken) \<noteq> '''' \<longrightarrow>
              (\<exists>t. res_AccessToken res = Some t \<and> t \<noteq> ''''))"
proof -
  let ?p = "params\<lparr>in_Email := ToLower (in_Email params)\<rparr>"
  let ?a = "jwt_ExpiresAt (AccessToken authToken)"
  let ?b = "time_Now_Unix env 1"
  let ?x = "if sint (?a - ?b) \<le> 0 then 1 else ?a - ?b"
  let ?res = "\<lparr>res_Message = ''Signed up successfully.'',
                res_AccessToken = Some (jwt_Token (AccessToken authToken)),
                res_RefreshToken = map_option jwt_Token (RefreshToken authToken),
                res_ExpiresIn = Some ?x,
                res_User = Some (AsAPIUser env user)\<rparr>"
  have add': "db_AddUser env (db w)
                (if flag_or_true (memorystore_GetBoolStoreEnvVariable env EnvKeyDisableEmailVerification)
                 then (SignupResolver_user env ?p inputRoles (AuthRecipeMethodBasicAuth env))
                      \<lparr>EmailVerifiedAt := Some (time_Now_Unix env 0)\<rparr>
                 else SignupResolver_user env ?p inputRoles (AuthRecipeMethodBasicAuth env))
              = ((user, None), db1)"
    using add disabled by simp
  have run: "SignupResolver env params w =
               SignupResolver_authenticated env ?p gc user (w\<lparr>db := db1\<rparr>)"
    using SignupResolver_after_checks
      [OF gin signup basic confirm password email existing roles add'] disabled
    by simp
  have tok: "token_CreateAuthToken env gc user (Split (Roles user) CHR '','')
                  (case in_Scope ?p of None \<Rightarrow> [''openid'', ''email'', ''profile'']
                   | Some paramsScope \<Rightarrow> paramsScope)
                  (AuthRecipeMethodBasicAuth env) = Inr authToken"
    using token by simp
  have res: "fst (SignupResolver env params w) = Inr ?res"
    unfolding run by (rule SignupResolver_authenticated_response [OF tok])
  have fits: "sint (?a - ?b) = sint ?a - sint ?b"
    if "- (2 ^ 63) \<le> sint ?a - sint ?b" "sint ?a - sint ?b < 2 ^ 63"
    using that by (rule sint_minus_fits)
  have "res_ExpiresIn ?res = Some ?x
         \<and> sint ?x = max 1 (sint (?a - ?b))
         \<and> 1 \<le> sint ?x
         \<and> (- (2 ^ 63) \<le> sint ?a - sint ?b \<and> sint ?a - sint ?b < 2 ^ 63
              \<longrightarrow> sint ?x = max 1 (sint ?a - sint ?b))
         \<and> res_AccessToken ?res = Some (jwt_Token (AccessToken authToken))
         \<and> (jwt_Token (AccessToken authToken) \<noteq> '''' \<longrightarrow>
              (\<exists>t. res_AccessToken ?res = Some t \<and> t \<noteq> ''''))"
    using expiresIn_at_least_one [of ?a ?b] fits by auto
  with res show ?thesis by blast
qed
subsection \<open>The verification branch\<close>

lemma SignupResolver_verification_result:
  assumes nonce: "utils_GenerateNonce env = Inr (nonce, nonceHash)"
    and token: "token_CreateVerificationToken env (in_Email params)
                  (VerificationTypeBasicAuthSignup env) (gc_Host gc) nonceHash
                  (case in_RedirectURI params of None \<Rightarrow> gc_AppURL gc | Some uri \<Rightarrow> uri)
                = Inr verificationToken"
    and request: "db_AddVerificationRequest env (db w)
                    \<lparr>vr_Token = verificationToken,
                     vr_Identifier = VerificationTypeBasicAuthSignup env,
                     vr_ExpiresAt = time_Now_Unix env 0 + 1800,
                     vr_Email = in_Email params,
                     vr_Nonce = nonceHash,
                     vr_RedirectURI =
                       (case in_RedirectURI params of None \<Rightarrow> gc_AppURL gc | Some uri \<Rightarrow> uri)\<rparr>
                  = (None, db2)"
  shows "SignupResolver_verification env params gc user w =
           (Inr \<lparr>res_Message = ''Verification email has been sent. Please check your inbox'',
                 res_AccessToken = None,
                 res_RefreshToken = None,
                 res_ExpiresIn = None,
                 res_User = Some (AsAPIUser env user)\<rparr>,
            w\<lparr>db := db2,
              background := background w @
                [[SendVerificationMail (in_Email params) verificationToken (gc_Host gc),
                  RegisterEvent (UserCreatedWebhookEvent env) (AuthRecipeMethodBasicAuth env)
                    user]]\<rparr>)"
  using nonce token request
  by (simp add: SignupResolver_verification_def Let_def)

text \<open>
  C5. For a signup input that passes every check, with email verification read as
  enabled, a stored user, a nonce and a verification token, \<open>SignupResolver\<close> hands the
  provider one verification request for the lower-cased email and the signup type,
  expiring 1800 seconds after the clock reading taken when the request is made, and
  answers with the check-your-inbox message, no access token, no refresh token and no
  \<open>ExpiresIn\<close>. The store is then the one this single call left; with a provider
  whose new request replaces the earlier ones of its email and type, exactly one
  request of that email and type is stored.
\<close>

theorem SignupResolver_verification_pending:
  fixes requests :: "'db \<Rightarrow> VerificationRequest list"
  assumes gin: "utils_GinContextFromContext env = Inr gc"
    and signup: "memorystore_GetBoolStoreEnvVariable env EnvKeyDisableSignUp = Inr False"
    and basic: "memorystore_GetBoolStoreEnvVariable env EnvKeyDisableBasicAuthentication = Inr False"
    and confirm: "in_ConfirmPassword params = in_Password params"
    and password: "validators_IsValidPassword env (in_Password params) = None"
    and email: "validators_IsValidEmail env (ToLower (in_Email params))"
    and existing: "EmailVerifiedAt (fst (db_GetUserByEmail env (db w) (ToLower (in_Email params)))) = None"
      "ID (fst (db_GetUserByEmail env (db w) (ToLower (in_Email params)))) = ''''"
    and roles: "SignupResolver_inputRoles env (params\<lparr>in_Email := ToLower (in_Email params)\<rparr>) = Inr inputRoles"
    and enabled: "memorystore_GetBoolStoreEnvVariable env EnvKeyDisableEmailVerification = Inr False"
    and add: "db_AddUser env (db w)
                (SignupResolver_user env (params\<lparr>in_Email := ToLower (in_Email params)\<rparr>)
                    inputRoles (AuthRecipeMethodBasicAuth env))
              = ((user, None), db1)"
    and nonce: "utils_GenerateNonce env = Inr (nonce, nonceHash)"
    and token: "token_CreateVerificationToken env (ToLower (in_Email params))
                  (VerificationTypeBasicAuthSignup env) (gc_Host gc) nonceHash
                  (case in_RedirectURI params of None \<Rightarrow> gc_AppURL gc | Some uri \<Rightarrow> uri)
                = Inr verificationToken"
    and made: "request =
                 \<lparr>vr_Token = verificationToken,
                  vr_Identifier = VerificationTypeBasicAuthSignup env,
                  vr_ExpiresAt = time_Now_Unix env 0 + 1800,
                  vr_Email = ToLower (in_Email params),
                  vr_Nonce = nonceHash,
                  vr_RedirectURI =
                    (case in_RedirectURI params of None \<Rightarrow> gc_AppURL gc | Some uri \<Rightarrow> uri)\<rparr>"
    and stored: "db_AddVerificationRequest env db1 request = (None, db2)"
    and replaces: "\<forall>d r d'. db_AddVerificationRequest env d r = (None, d') \<longrightarrow>
                     requests d' = filter (\<lambda>x. \<not> same_request x r) (requests d) @ [r]"
  shows "SignupResolver env params w =
           (Inr \<lparr>res_Message = ''Verification email has been sent. Please check your inbox'',
                 res_AccessToken = None,
                 res_RefreshToken = None,
                 res_ExpiresIn = None,
                 res_User = Some (AsAPIUser env user)\<rparr>,
            w\<lparr>db := db2,
              background := background w @
                [[SendVerificationMail (ToLower (in_Email params)) verificationToken (gc_Host gc),
                  RegisterEvent (UserCreatedWebhookEvent env) (AuthRecipeMethodBasicAuth env)
                    user]]\<rparr>)
         \<and> (\<exists>r. filter (\<lambda>x. vr_Email x = ToLower (in_Email params)
                              \<and> vr_Identifier x = VerificationTypeBasicAuthSignup env)
                     (requests (db (snd (SignupResolver env params w)))) = [r]
                \<and> vr_ExpiresAt r = time_Now_Unix env 0 + 1800
                \<and> vr_Token r = verificationToken)"
proof -
  let ?p = "params\<lparr>in_Email := ToLower (in_Email params)\<rparr>"
  have add': "db_AddUser env (db w)
                (if flag_or_true (memorystore_GetBoolStoreEnvVariable env EnvKeyDisableEmailVerification)
                 then (SignupResolver_user env ?p inputRoles (AuthRecipeMethodBasicAuth env))
                      \<lparr>EmailVerifiedAt := Some (time_Now_Unix env 0)\<rparr>
                 else SignupResolver_user env ?p inputRoles (AuthRecipeMethodBasicAuth env))
              = ((user, None), db1)"
    using add enabled by (simp add: flag_or_true_def)
  have run: "SignupResolver env params w =
               SignupResolver_verification env ?p gc user (w\<lparr>db := db1\<rparr>)"
    using SignupResolver_after_checks
      [OF gin signup basic confirm password email existing roles add'] enabled
    by (simp add: flag_or_true_def)
  have res: "SignupResolver env params w =
           (Inr \<lparr>res_Message = ''Verification email has been sent. Please check your inbox'',
                 res_AccessToken = None,
                 res_RefreshToken = None,
                 res_ExpiresIn = None,
                 res_User = Some (AsAPIUser env user)\<rparr>,
            w\<lparr>db := db2,
              background := background w @
                [[SendVerificationMail (ToLower (in_Email params)) verificationToken (gc_Host gc),
                  RegisterEvent (UserCreatedWebhookEvent env) (AuthRecipeMethodBasicAuth env)
                    user]]\<rparr>)"
    unfolding run
    using SignupResolver_verification_result [of env nonce nonceHash ?p gc verificationToken
        "w\<lparr>db := db1\<rparr>" db2 user] nonce token stored made
    by simp
  have "requests db2 = filter (\<lambda>x. \<not> same_request x request) (requests db1) @ [request]"
    using replaces stored by blast
  then have one: "filter (\<lambda>x. vr_Email x = ToLower (in_Email params)
                              \<and> vr_Identifier x = VerificationTypeBasicAuthSignup env)
                    (requests db2) = [request]"
    using made by (simp add: same_request_def)
  have "vr_ExpiresAt request = time_Now_Unix env 0 + 1800" "vr_Token request = verificationToken"
    using made by simp_all
  with res one show ?thesis
    by simp
qed

end
